theory Spec2Isabelle
  imports Complex_Main "HOL-Library.AList"
begin

section \<open>The browser state the client code runs against\<close>

text \<open>
  \<open>localStorage\<close> is a key/value store of strings. \<open>getItem\<close> answers \<open>null\<close>
  (here \<open>None\<close>) for a key that is not stored, \<open>setItem\<close> stores the string form of
  its argument and \<open>removeItem\<close> deletes a key (and does nothing for a key that is not
  there). None of the three throws.
\<close>

type_synonym storage = "string \<rightharpoonup> string"

definition getItem :: "storage \<Rightarrow> string \<Rightarrow> string option" where
  "getItem st k = st k"

definition setItem :: "storage \<Rightarrow> string \<Rightarrow> string \<Rightarrow> storage" where
  "setItem st k v = st(k \<mapsto> v)"

definition removeItem :: "storage \<Rightarrow> string \<Rightarrow> storage" where
  "removeItem st k = st(k := None)"

text \<open>
  The source tests values with \<open>if (token)\<close>: \<open>null\<close>, \<open>undefined\<close> and the empty
  string are falsy, every other string is truthy.
\<close>

definition truthy :: "string option \<Rightarrow> bool" where
  "truthy v = (case v of None \<Rightarrow> False | Some s \<Rightarrow> s \<noteq> [])"

text \<open>
  The string form of a value that may be \<open>undefined\<close>, as a template literal and
  \<open>setItem\<close> compute it.
\<close>

definition js_string :: "string option \<Rightarrow> string" where
  "js_string v = (case v of None \<Rightarrow> ''undefined'' | Some s \<Rightarrow> s)"

text \<open>The template literal \<^verbatim>\<open>`Bearer ${token}`\<close>.\<close>

definition bearer :: "string option \<Rightarrow> string" where
  "bearer token = ''Bearer '' @ js_string token"

section \<open>Requests, responses and errors\<close>

text \<open>The \<open>User\<close> interface of \<open>AuthContext.tsx\<close>.\<close>

record User =
  id :: int
  username :: string
  email :: string
  first_name :: string
  last_name :: string
  role :: string
  medical_license :: string
  hospital_name :: string
  department :: string
  phone_number :: string

text \<open>
  A request body. The interceptors never read it; the two bodies the modelled code builds
  itself (the credentials of a login, \<open>{ refresh: refreshToken }\<close>) are objects of
  string fields.
\<close>

datatype payload = NoData | JsonObject "(string \<times> string) list"

text \<open>
  An axios request config: the fields the code touches, and \<open>_retry\<close>, the mark the
  response interceptor puts on a request (\<open>http_method\<close> is the field \<open>method\<close>).
  \<open>headers\<close> is an object, kept as an
  association list; assigning \<open>headers.Authorization\<close> is \<open>AList.update\<close>.
\<close>

record config =
  baseURL :: "string option"
  url :: string
  http_method :: string
  headers :: "(string \<times> string) list"
  payload :: payload
  retry :: bool

text \<open>
  A response body, as far as the client reads it: the fields \<open>access\<close>, \<open>refresh\<close>
  and \<open>user\<close>, each of which may be missing (\<open>undefined\<close>).
\<close>

record body =
  access :: "string option"
  refresh :: "string option"
  user :: "User option"

record response =
  status :: nat
  data :: body

text \<open>What the network gives back for a request: a response, or nothing (timeout, no connection).\<close>

datatype reply = Reply response | NoReply

text \<open>An axios error carries the config of its request and the response, when there is one.\<close>

datatype error = AxiosError config "response option"

datatype outcome = Resolved response | Rejected error

text \<open>
  The world of one browser tab: the storage, \<open>window.location.href\<close>, and the requests
  that have gone out on the network, in order.
\<close>

record world =
  localStorage :: storage
  location :: string
  sent :: "config list"

text \<open>
  What the code is run against: the server, which answers a request knowing the requests
  before it, and \<open>process.env.NEXT_PUBLIC_API_BASE_URL\<close>, which may be unset.
\<close>

record env =
  server :: "config list \<Rightarrow> config \<Rightarrow> reply"
  NEXT_PUBLIC_API_BASE_URL :: "string option"

section \<open>\<open>lib/api\<close>: the axios instance and its interceptors\<close>

text \<open>
  \<open>axios.create\<close>: the instance's base URL is the environment variable, or the
  default when the variable is unset or empty (\<open>||\<close>).
\<close>

definition api_baseURL :: "env \<Rightarrow> string" where
  "api_baseURL e =
     (if truthy (NEXT_PUBLIC_API_BASE_URL e) then js_string (NEXT_PUBLIC_API_BASE_URL e)
      else ''http://localhost:8000/api/v1'')"

text \<open>The configs that \<open>api.get(url)\<close> and \<open>api.post(url, data)\<close> hand to the instance.\<close>

definition api_get :: "env \<Rightarrow> string \<Rightarrow> config" where
  "api_get e u =
     \<lparr>baseURL = Some (api_baseURL e), url = u, http_method = ''get'', headers = [],
      payload = NoData, retry = False\<rparr>"

definition api_post :: "env \<Rightarrow> string \<Rightarrow> payload \<Rightarrow> config" where
  "api_post e u d =
     \<lparr>baseURL = Some (api_baseURL e), url = u, http_method = ''post'', headers = [],
      payload = d, retry = False\<rparr>"

text \<open>
  The request interceptor (its first handler; the second only passes a rejection on):
  \<^verbatim>\<open>
  const token = localStorage.getItem("access_token");
  if (token) { config.headers.Authorization = `Bearer ${token}`; }
  return config;
  \<close>
\<close>

definition request_fulfilled :: "storage \<Rightarrow> config \<Rightarrow> config" where
  "request_fulfilled st cfg =
     (let token = getItem st ''access_token'' in
      if truthy token
      then cfg\<lparr>headers :=
             AList.update ''Authorization'' (bearer token) (headers cfg)\<rparr>
      else cfg)"

text \<open>
  Sending a request: axios resolves with the response when its status is in
  \<open>[200, 300)\<close> (the default \<open>validateStatus\<close>) and rejects with an error otherwise;
  with no response at all it rejects with an error that has no \<open>response\<close>.
\<close>

definition settle :: "config \<Rightarrow> reply \<Rightarrow> outcome" where
  "settle cfg r =
     (case r of
        NoReply \<Rightarrow> Rejected (AxiosError cfg None)
      | Reply resp \<Rightarrow>
          if 200 \<le> status resp \<and> status resp < 300 then Resolved resp
          else Rejected (AxiosError cfg (Some resp)))"

definition send :: "world \<Rightarrow> config \<Rightarrow> world" where
  "send w cfg = w\<lparr>sent := sent w @ [cfg]\<rparr>"

definition dispatch :: "env \<Rightarrow> world \<Rightarrow> config \<Rightarrow> outcome \<times> world" where
  "dispatch e w cfg = (settle cfg (server e (sent w) cfg), send w cfg)"

text \<open>
  The refresh exchange goes out on the global \<open>axios\<close>, not on the instance: no
  interceptor, no base URL, the URL built from the environment variable alone.
\<close>

definition refresh_request :: "env \<Rightarrow> string \<Rightarrow> config" where
  "refresh_request e refreshToken =
     \<lparr>baseURL = None,
      url = js_string (NEXT_PUBLIC_API_BASE_URL e) @ ''/auth/refresh/'',
      http_method = ''post'', headers = [],
      payload = JsonObject [(''refresh'', refreshToken)], retry = False\<rparr>"

text \<open>
  The rejection handler of the response interceptor is an \<open>async\<close> function with one
  \<open>await\<close>. It is modelled in the two pieces the \<open>await\<close> cuts it into. The first
  runs up to the \<open>await\<close>: it either finishes at once, or has marked the request and
  waits for the refresh exchange.
\<close>

datatype suspended = Finished outcome | Awaiting config config

definition response_rejected_begin :: "env \<Rightarrow> world \<Rightarrow> error \<Rightarrow> suspended" where
  "response_rejected_begin e w err =
     (case err of AxiosError originalRequest resp \<Rightarrow>
        if map_option status resp = Some 401 \<and> \<not> retry originalRequest then
          (let originalRequest = originalRequest\<lparr>retry := True\<rparr>;
               refreshToken = getItem (localStorage w) ''refresh_token''
           in if truthy refreshToken
              then Awaiting originalRequest (refresh_request e (js_string refreshToken))
              else Finished (Rejected (AxiosError originalRequest resp)))
        else Finished (Rejected err))"

text \<open>
  The second piece runs when the refresh exchange has settled: on a response it stores
  the new access token, sets the header and returns \<open>api(originalRequest)\<close>; on a
  rejection (the \<open>catch\<close>) it removes the three keys, assigns \<open>window.location.href\<close>
  and rejects with the refresh error.
\<close>

datatype step = Settled outcome | Reissue config

definition response_rejected_resume :: "world \<Rightarrow> config \<Rightarrow> outcome \<Rightarrow> step \<times> world" where
  "response_rejected_resume w originalRequest r =
     (case r of
        Resolved response \<Rightarrow>
          (let access = access (data response);
               w1 = w\<lparr>localStorage :=
                      setItem (localStorage w) ''access_token'' (js_string access)\<rparr>;
               originalRequest = originalRequest\<lparr>headers :=
                      AList.update ''Authorization'' (bearer access)
                        (headers originalRequest)\<rparr>
           in (Reissue originalRequest, w1))
      | Rejected refreshError \<Rightarrow>
          (Settled (Rejected refreshError),
           w\<lparr>localStorage :=
                removeItem (removeItem (removeItem (localStorage w) ''access_token'')
                  ''refresh_token'') ''user'',
             location := ''/login''\<rparr>))"

text \<open>The whole handler, when nothing else runs while it waits.\<close>

definition response_rejected :: "env \<Rightarrow> world \<Rightarrow> error \<Rightarrow> step \<times> world" where
  "response_rejected e w err =
     (case response_rejected_begin e w err of
        Finished out \<Rightarrow> (Settled out, w)
      | Awaiting originalRequest rq \<Rightarrow>
          (case dispatch e w rq of (r, w1) \<Rightarrow> response_rejected_resume w1 originalRequest r))"

text \<open>
  A request on the instance: the request interceptor, the network, and on a rejection the
  response interceptor, whose \<open>return api(originalRequest)\<close> runs the whole chain again
  on the marked request. (The fulfilment handler of the response interceptor is the
  identity.)
\<close>

function api_request :: "env \<Rightarrow> world \<Rightarrow> config \<Rightarrow> outcome \<times> world" where
  "api_request e w cfg =
     (case dispatch e w (request_fulfilled (localStorage w) cfg) of
        (Resolved response, w1) \<Rightarrow> (Resolved response, w1)
      | (Rejected err, w1) \<Rightarrow>
          (case response_rejected e w1 err of
             (Settled out, w2) \<Rightarrow> (out, w2)
           | (Reissue cfg2, w2) \<Rightarrow> api_request e w2 cfg2))"
  by pat_completeness auto
termination
proof (relation "measure (\<lambda>(e, w, cfg). if retry cfg then 0 else 1)")
  show "wf (measure (\<lambda>(e, w, cfg). if retry cfg then 0 else (1::nat)))"
    by simp
next
  fix e :: env and w :: world and cfg x w1 err y w2 cfg2
  assume d: "(x, w1) = dispatch e w (request_fulfilled (localStorage w) cfg)"
    and x: "x = Rejected err"
    and r: "(y, w2) = response_rejected e w1 err"
    and y: "y = Reissue cfg2"
  from d x have "\<exists>resp. err = AxiosError (request_fulfilled (localStorage w) cfg) resp"
    by (auto simp: dispatch_def send_def settle_def split: reply.splits if_splits)
  then obtain resp where err: "err = AxiosError (request_fulfilled (localStorage w) cfg) resp"
    by blast
  from r y err have "\<not> retry (request_fulfilled (localStorage w) cfg) \<and> retry cfg2"
    by (auto simp: response_rejected_def response_rejected_begin_def
          response_rejected_resume_def dispatch_def send_def Let_def
        split: if_splits suspended.splits outcome.splits prod.splits)
  moreover have "retry (request_fulfilled (localStorage w) cfg) = retry cfg"
    by (simp add: request_fulfilled_def Let_def)
  ultimately show "((e, w2, cfg2), (e, w, cfg)) \<in> measure (\<lambda>(e, w, cfg). if retry cfg then 0 else 1)"
    by simp
qed

text \<open>\<open>auth.logout\<close>: three \<open>removeItem\<close> calls.\<close>

definition auth_logout :: "world \<Rightarrow> world" where
  "auth_logout w =
     w\<lparr>localStorage :=
         removeItem (removeItem (removeItem (localStorage w) ''access_token'')
           ''refresh_token'') ''user''\<rparr>"

section \<open>Several requests in flight\<close>

text \<open>
  JavaScript runs one piece of code at a time, and an \<open>async\<close> function gives way
  only at its \<open>await\<close>. With several requests in flight the rejection handler runs
  once per failed request, and the pieces of these runs interleave in the order in which
  the network answers. A tab is the world and the runs of the handler so far, each either
  waiting for its refresh exchange (with the marked request and the exchange it sent) or
  ended.
\<close>

datatype handler = Waiting config config | Ended step

record tab =
  window :: world
  handlers :: "handler list"

text \<open>
  Two things happen to a tab: a request of the instance fails, which starts a run of the
  handler (its first piece, and the refresh exchange goes out if it asks for one); or the
  network answers the refresh exchange of the run \<open>i\<close>, which lets that run finish (its
  second piece; \<open>return api(originalRequest)\<close> sends the request through the request
  interceptor again). An answer for a run that is not waiting does not occur; the model
  ignores it.
\<close>

datatype event = Fails error | Answers nat reply

fun occurs :: "env \<Rightarrow> tab \<Rightarrow> event \<Rightarrow> tab" where
  "occurs e t (Fails err) =
     (case response_rejected_begin e (window t) err of
        Finished out \<Rightarrow> t\<lparr>handlers := handlers t @ [Ended (Settled out)]\<rparr>
      | Awaiting originalRequest rq \<Rightarrow>
          t\<lparr>window := send (window t) rq,
            handlers := handlers t @ [Waiting originalRequest rq]\<rparr>)"
| "occurs e t (Answers i reply) =
     (if i < length (handlers t) then
        (case handlers t ! i of
           Waiting originalRequest rq \<Rightarrow>
             (case response_rejected_resume (window t) originalRequest (settle rq reply) of
                (Reissue cfg, w1) \<Rightarrow>
                  t\<lparr>window := send w1 (request_fulfilled (localStorage w1) cfg),
                    handlers := (handlers t)[i := Ended (Reissue cfg)]\<rparr>
              | (Settled out, w1) \<Rightarrow>
                  t\<lparr>window := w1, handlers := (handlers t)[i := Ended (Settled out)]\<rparr>)
         | Ended s \<Rightarrow> t)
      else t)"

text \<open>A run of events, in the order in which they happen.\<close>

definition run :: "env \<Rightarrow> tab \<Rightarrow> event list \<Rightarrow> tab" where
  "run e t evs = foldl (occurs e) t evs"

text \<open>
  The test of the handler, \<open>error.response?.status === 401 && !originalRequest._retry\<close>,
  on an error.
\<close>

definition unauthorized :: "error \<Rightarrow> bool" where
  "unauthorized err =
     (case err of AxiosError cfg resp \<Rightarrow> map_option status resp = Some 401 \<and> \<not> retry cfg)"

text \<open>A run of the handler that is waiting for the exchange \<open>rq\<close>.\<close>

fun awaits :: "config \<Rightarrow> handler \<Rightarrow> bool" where
  "awaits rq (Waiting originalRequest rq') = (rq' = rq)"
| "awaits rq (Ended s) = False"

section \<open>\<open>AuthContext\<close>: the provider's state and its operations\<close>

text \<open>
  \<open>auth.login\<close> posts the credentials through the instance and returns
  \<open>response.data\<close>; a rejection of the request is its rejection.
\<close>

definition auth_login :: "env \<Rightarrow> world \<Rightarrow> string \<times> string \<Rightarrow> (error + body) \<times> world" where
  "auth_login e w credentials =
     (case api_request e w
             (api_post e ''/auth/login/''
                (JsonObject [(''username'', fst credentials), (''password'', snd credentials)])) of
        (Resolved response, w1) \<Rightarrow> (Inr (data response), w1)
      | (Rejected err, w1) \<Rightarrow> (Inl err, w1))"

text \<open>
  The provider holds the React state \<open>user\<close> (here \<open>user_state\<close>; \<open>null\<close> and
  \<open>undefined\<close> are both \<open>None\<close>) and runs in a browser tab.
\<close>

record auth_context =
  browser :: world
  user_state :: "User option"

text \<open>\<open>setUser\<close>, and \<open>localStorage.setItem\<close> as a statement of the provider.\<close>

definition setUser :: "User option \<Rightarrow> auth_context \<Rightarrow> auth_context" where
  "setUser u s = s\<lparr>user_state := u\<rparr>"

definition store_item :: "string \<Rightarrow> string \<Rightarrow> auth_context \<Rightarrow> auth_context" where
  "store_item k v s =
     s\<lparr>browser := (browser s)\<lparr>localStorage := setItem (localStorage (browser s)) k v\<rparr>\<rparr>"

text \<open>
  \<open>login\<close> of the provider. \<open>JSON.stringify\<close> on a user object is a parameter;
  on \<open>undefined\<close> it gives \<open>undefined\<close>, which \<open>setItem\<close> stores in its string
  form. The \<open>catch\<close> only rethrows.
  \<^verbatim>\<open>
  const response = await auth.login(credentials);
  localStorage.setItem("access_token", response.access);
  localStorage.setItem("refresh_token", response.refresh);
  localStorage.setItem("user", JSON.stringify(response.user));
  setUser(response.user);
  \<close>
  The four statements after the \<open>await\<close> run in this order. To keep the order in the
  model, \<open>login_trace\<close> returns every state the provider passes through once the
  request has settled: the state the request left, then the state after each statement.
  \<open>login\<close> is the last of them.
\<close>

definition login_statements :: "(User \<Rightarrow> string) \<Rightarrow> body \<Rightarrow> (auth_context \<Rightarrow> auth_context) list" where
  "login_statements stringify response =
     [store_item ''access_token'' (js_string (access response)),
      store_item ''refresh_token'' (js_string (refresh response)),
      store_item ''user'' (js_string (map_option stringify (user response))),
      setUser (user response)]"

fun states_through :: "'s \<Rightarrow> ('s \<Rightarrow> 's) list \<Rightarrow> 's list" where
  "states_through s [] = [s]"
| "states_through s (statement # statements) = s # states_through (statement s) statements"

definition login_trace ::
  "env \<Rightarrow> (User \<Rightarrow> string) \<Rightarrow> auth_context \<Rightarrow> string \<times> string \<Rightarrow>
   (error + unit) \<times> auth_context list"
where
  "login_trace e stringify s credentials =
     (case auth_login e (browser s) credentials of
        (Inr response, w1) \<Rightarrow>
          (Inr (), states_through (s\<lparr>browser := w1\<rparr>) (login_statements stringify response))
      | (Inl error, w1) \<Rightarrow> (Inl error, [s\<lparr>browser := w1\<rparr>]))"

definition login ::
  "env \<Rightarrow> (User \<Rightarrow> string) \<Rightarrow> auth_context \<Rightarrow> string \<times> string \<Rightarrow> (error + unit) \<times> auth_context"
where
  "login e stringify s credentials =
     (case login_trace e stringify s credentials of (result, states) \<Rightarrow> (result, last states))"

text \<open>\<open>logout\<close> of the provider: \<open>auth.logout(); setUser(null)\<close>.\<close>

definition logout :: "auth_context \<Rightarrow> auth_context" where
  "logout s = setUser None (s\<lparr>browser := auth_logout (browser s)\<rparr>)"

section \<open>\<open>ImageUpload\<close>: the analysis step\<close>

text \<open>
  A file the user has dropped: its name, MIME type, size and bytes (\<open>mime_type\<close> and
  \<open>byte_size\<close> are the fields \<open>type\<close> and \<open>size\<close>).
\<close>

record File =
  name :: string
  mime_type :: string
  byte_size :: nat
  bytes :: "nat list"

record AnalysisResult =
  prediction :: string
  confidence :: real
  severity :: string
  recommendations :: "string list"
  detectedFeatures :: "string list"
  riskFactors :: "string list"
  filename :: string
  analysisDate :: string

text \<open>
  What \<open>analyzeImage\<close> does, in order: state updates, the timer it waits on, and the
  call of \<open>onAnalysisComplete\<close>.
\<close>

datatype ui_event =
  SetIsAnalyzing bool
  | SetTimeout nat
  | OnAnalysisComplete AnalysisResult
  | SetUploadError string

text \<open>
  \<open>analyzeImage\<close>. \<open>now\<close> is what \<open>new Date().toISOString()\<close> gives when the
  timer has fired; \<open>throws\<close> says whether the callback throws on a result (the
  \<open>catch\<close> then sets the upload error; the \<open>finally\<close> runs in both cases). The
  \<open>FormData\<close> built from the file is never used. \<open>confidence\<close> is the number the
  literal \<open>0.87\<close> denotes.
\<close>

definition mockResult :: "File \<Rightarrow> string \<Rightarrow> AnalysisResult" where
  "mockResult uploadedFile now =
     \<lparr>prediction = ''Diabetic Retinopathy Detected'',
      confidence = 0.87,
      severity = ''Moderate'',
      recommendations =
        [''Consult with ophthalmologist within 2 weeks'',
         ''Monitor blood sugar levels closely'',
         ''Schedule follow-up examination in 3 months''],
      detectedFeatures =
        [''Microaneurysms present'', ''Hard exudates detected'', ''Cotton wool spots identified''],
      riskFactors = [''Diabetes'', ''Hypertension''],
      filename = name uploadedFile,
      analysisDate = now\<rparr>"

definition analyzeImage ::
  "(AnalysisResult \<Rightarrow> bool) \<Rightarrow> string \<Rightarrow> File option \<Rightarrow> ui_event list"
where
  "analyzeImage throws now uploadedFile =
     (case uploadedFile of
        None \<Rightarrow> []
      | Some f \<Rightarrow>
          [SetIsAnalyzing True, SetTimeout 3000, OnAnalysisComplete (mockResult f now)]
          @ (if throws (mockResult f now)
             then [SetUploadError ''Analysis failed. Please try again.'']
             else [])
          @ [SetIsAnalyzing False])"

section \<open>A concrete server and concrete worlds\<close>

text \<open>
  A small server to run the code against. It accepts the access token \<open>fresh\<close> and
  the refresh token \<open>r1\<close>, for which it issues \<open>fresh\<close>; it signs \<open>testdoctor\<close>
  in; everything else is answered with 401, except \<open>/boom/\<close>, which answers 500, and
  \<open>/down/\<close>, which does not answer.
\<close>

definition no_body :: body where
  "no_body = \<lparr>access = None, refresh = None, user = None\<rparr>"

definition demo_user :: User where
  "demo_user =
     \<lparr>id = 1, username = ''testdoctor'', email = ''doc@example.org'', first_name = ''Test'',
      last_name = ''Doctor'', role = ''doctor'', medical_license = ''ML-1'',
      hospital_name = ''General'', department = ''Eye'', phone_number = ''555''\<rparr>"

definition demo_server :: "config list \<Rightarrow> config \<Rightarrow> reply" where
  "demo_server history cfg =
     (if url cfg = ''https://api.example/auth/refresh/'' then
        (if payload cfg = JsonObject [(''refresh'', ''r1'')]
         then Reply \<lparr>status = 200, data = no_body\<lparr>access := Some ''fresh''\<rparr>\<rparr>
         else Reply \<lparr>status = 401, data = no_body\<rparr>)
      else if url cfg = ''/auth/login/'' then
        (if payload cfg = JsonObject [(''username'', ''testdoctor''), (''password'', ''testpass123'')]
         then Reply \<lparr>status = 200,
                data = \<lparr>access = Some ''fresh'', refresh = Some ''r1'', user = Some demo_user\<rparr>\<rparr>
         else Reply \<lparr>status = 401, data = no_body\<rparr>)
      else if url cfg = ''/down/'' then NoReply
      else if url cfg = ''/boom/'' then Reply \<lparr>status = 500, data = no_body\<rparr>
      else if map_of (headers cfg) ''Authorization'' = Some ''Bearer fresh''
        then Reply \<lparr>status = 200, data = no_body\<rparr>
      else Reply \<lparr>status = 401, data = no_body\<rparr>)"

definition demo_env :: env where
  "demo_env = \<lparr>server = demo_server, NEXT_PUBLIC_API_BASE_URL = Some ''https://api.example''\<rparr>"

definition stored :: "string \<Rightarrow> string \<Rightarrow> string \<Rightarrow> storage" where
  "stored a r u = [''access_token'' \<mapsto> a, ''refresh_token'' \<mapsto> r, ''user'' \<mapsto> u]"

definition page :: "storage \<Rightarrow> world" where
  "page st = \<lparr>localStorage = st, location = ''/dashboard'', sent = []\<rparr>"

text \<open>A session whose access token has expired, with a refresh token the server accepts.\<close>

definition stale_session :: world where
  "stale_session = page (stored ''stale'' ''r1'' ''{}'')"

text \<open>A session whose refresh token the server rejects as well.\<close>

definition dead_session :: world where
  "dead_session = page (stored ''stale'' ''revoked'' ''{}'')"

text \<open>An access token with no refresh token beside it.\<close>

definition access_only :: world where
  "access_only = page [''access_token'' \<mapsto> ''stale'']"

text \<open>A store whose \<open>access_token\<close> key holds the empty string.\<close>

definition blank_token :: world where
  "blank_token = page [''access_token'' \<mapsto> []]"

text \<open>\<open>patients.list()\<close>, and two calls the demo server refuses whatever the token.\<close>

definition patients_list :: config where
  "patients_list = api_get demo_env ''/patients/''"

definition boom :: config where
  "boom = api_get demo_env ''/boom/''"

definition down :: config where
  "down = api_get demo_env ''/down/''"

text \<open>
  A provider whose user state is \<open>null\<close> in a tab whose store holds the stale session
  (no cross-tab synchronisation: another tab has signed in since this one mounted), and a
  provider in a tab with an empty store.
\<close>

definition late_visitor :: auth_context where
  "late_visitor = \<lparr>browser = stale_session, user_state = None\<rparr>"

definition fresh_visitor :: auth_context where
  "fresh_visitor = \<lparr>browser = page Map.empty, user_state = None\<rparr>"

text \<open>A stand-in for \<open>JSON.stringify\<close>.\<close>

definition demo_stringify :: "User \<Rightarrow> string" where
  "demo_stringify u = ''{username:'' @ username u @ ''}''"

text \<open>
  Two requests of one tab that have both been answered 401, and answers of the refresh
  endpoint: a new access token, or a refusal.
\<close>

definition dashboard_stats :: config where
  "dashboard_stats = api_get demo_env ''/dashboard/stats/''"

definition two_failures :: "error list" where
  "two_failures =
     [AxiosError (request_fulfilled (localStorage stale_session) patients_list)
        (Some \<lparr>status = 401, data = no_body\<rparr>),
      AxiosError (request_fulfilled (localStorage stale_session) dashboard_stats)
        (Some \<lparr>status = 401, data = no_body\<rparr>)]"

definition busy_tab :: "world \<Rightarrow> tab" where
  "busy_tab w =
     \<lparr>window = w\<lparr>sent := [request_fulfilled (localStorage w) patients_list,
                           request_fulfilled (localStorage w) dashboard_stats]\<rparr>,
      handlers = []\<rparr>"

definition issued :: "string \<Rightarrow> reply" where
  "issued token = Reply \<lparr>status = 200, data = no_body\<lparr>access := Some token\<rparr>\<rparr>"

definition refused :: reply where
  "refused = Reply \<lparr>status = 401, data = no_body\<rparr>"

lemmas demo_defs =
  demo_env_def demo_server_def demo_user_def no_body_def stored_def page_def
  stale_session_def dead_session_def access_only_def blank_token_def
  patients_list_def boom_def down_def api_get_def api_post_def api_baseURL_def

lemmas client_defs =
  getItem_def setItem_def removeItem_def truthy_def js_string_def bearer_def
  request_fulfilled_def settle_def dispatch_def send_def refresh_request_def
  response_rejected_begin_def response_rejected_resume_def response_rejected_def

lemmas tab_defs = dashboard_stats_def two_failures_def busy_tab_def issued_def refused_def
  run_def unauthorized_def

section \<open>Properties\<close>

lemma removeItem_same [simp]: "getItem (removeItem st k) k = None"
  by (simp add: getItem_def removeItem_def)

lemma removeItem_other [simp]: "k' \<noteq> k \<Longrightarrow> getItem (removeItem st k) k' = getItem st k'"
  by (simp add: getItem_def removeItem_def)

subsection \<open>The steps of a request\<close>

lemma request_fulfilled_retry [simp]: "retry (request_fulfilled st cfg) = retry cfg"
  by (simp add: request_fulfilled_def Let_def)

lemma settle_rejected_config: "settle cfg r = Rejected err \<Longrightarrow> \<exists>ro. err = AxiosError cfg ro"
  by (auto simp: settle_def split: reply.splits if_splits)

lemma settle_reply_401: "status r = 401 \<Longrightarrow> settle cfg (Reply r) = Rejected (AxiosError cfg (Some r))"
  by (simp add: settle_def)

lemma response_rejected_pass:
  "map_option status ro \<noteq> Some 401 \<or> retry cfg \<Longrightarrow>
   response_rejected e w (AxiosError cfg ro) = (Settled (Rejected (AxiosError cfg ro)), w)"
  by (auto simp: response_rejected_def response_rejected_begin_def)

lemma response_rejected_no_refresh_token:
  "status r = 401 \<Longrightarrow> \<not> retry cfg \<Longrightarrow> \<not> truthy (getItem (localStorage w) ''refresh_token'') \<Longrightarrow>
   response_rejected e w (AxiosError cfg (Some r)) =
     (Settled (Rejected (AxiosError (cfg\<lparr>retry := True\<rparr>) (Some r))), w)"
  by (simp add: response_rejected_def response_rejected_begin_def Let_def)

lemma response_rejected_refresh:
  "status r = 401 \<Longrightarrow> \<not> retry cfg \<Longrightarrow> truthy (getItem (localStorage w) ''refresh_token'') \<Longrightarrow>
   response_rejected e w (AxiosError cfg (Some r)) =
     response_rejected_resume (w\<lparr>sent := sent w @ [refresh_request e (js_string (getItem (localStorage w) ''refresh_token''))]\<rparr>)
       (cfg\<lparr>retry := True\<rparr>)
       (settle (refresh_request e (js_string (getItem (localStorage w) ''refresh_token'')))
          (server e (sent w) (refresh_request e (js_string (getItem (localStorage w) ''refresh_token'')))))"
  by (simp add: response_rejected_def response_rejected_begin_def Let_def dispatch_def send_def)

lemma api_request_retried:
  assumes "retry cfg"
  shows "api_request e w cfg =
     (settle (request_fulfilled (localStorage w) cfg)
        (server e (sent w) (request_fulfilled (localStorage w) cfg)),
      w\<lparr>sent := sent w @ [request_fulfilled (localStorage w) cfg]\<rparr>)"
proof (cases "settle (request_fulfilled (localStorage w) cfg)
        (server e (sent w) (request_fulfilled (localStorage w) cfg))")
  case (Resolved resp)
  then show ?thesis by (simp add: dispatch_def send_def)
next
  case (Rejected err)
  then obtain ro where "err = AxiosError (request_fulfilled (localStorage w) cfg) ro"
    using settle_rejected_config by blast
  with Rejected assms show ?thesis by (simp add: dispatch_def send_def response_rejected_pass)
qed

lemma api_request_failed:
  assumes "server e (sent w) (request_fulfilled (localStorage w) cfg) = Reply r1"
    and "status r1 = 401"
  shows "api_request e w cfg =
     (case response_rejected e (w\<lparr>sent := sent w @ [request_fulfilled (localStorage w) cfg]\<rparr>)
             (AxiosError (request_fulfilled (localStorage w) cfg) (Some r1)) of
        (Settled out, w2) \<Rightarrow> (out, w2)
      | (Reissue cfg2, w2) \<Rightarrow> api_request e w2 cfg2)"
  using assms by (simp add: dispatch_def send_def settle_reply_401)

text \<open>From here on \<open>api_request\<close> is unfolded only through the lemmas above.\<close>

declare api_request.simps [simp del]

lemma reissued_unchanged:
  "request_fulfilled (setItem st ''access_token'' (js_string a))
     (cfg\<lparr>headers := AList.update ''Authorization'' (bearer a) hs\<rparr>) =
   cfg\<lparr>headers := AList.update ''Authorization'' (bearer a) hs\<rparr>"
  by (simp add: request_fulfilled_def getItem_def setItem_def js_string_def bearer_def Let_def
        AList.update_triv AList.update_conv' split: option.splits)

lemma api_request_no_refresh_token:
  assumes "\<not> retry cfg"
    and "server e (sent w) (request_fulfilled (localStorage w) cfg) = Reply r1"
    and "status r1 = 401"
    and "\<not> truthy (getItem (localStorage w) ''refresh_token'')"
  shows "api_request e w cfg =
     (Rejected (AxiosError (request_fulfilled (localStorage w) cfg\<lparr>retry := True\<rparr>) (Some r1)),
      w\<lparr>sent := sent w @ [request_fulfilled (localStorage w) cfg]\<rparr>)"
  using assms
  by (simp add: api_request_failed response_rejected_no_refresh_token)

lemma api_request_refresh_failed:
  assumes "\<not> retry cfg"
    and "server e (sent w) c1 = Reply r1" and "status r1 = 401"
    and "truthy (getItem (localStorage w) ''refresh_token'')"
    and "settle rq (server e (sent w @ [c1]) rq) = Rejected refreshError"
    and "c1 = request_fulfilled (localStorage w) cfg"
    and "rq = refresh_request e (js_string (getItem (localStorage w) ''refresh_token''))"
  shows "api_request e w cfg =
     (Rejected refreshError,
      w\<lparr>localStorage :=
           removeItem (removeItem (removeItem (localStorage w) ''access_token'')
             ''refresh_token'') ''user'',
         location := ''/login'',
         sent := sent w @ [c1, rq]\<rparr>)"
  using assms
  by (simp add: api_request_failed response_rejected_refresh response_rejected_resume_def)

lemma api_request_refreshed:
  assumes "\<not> retry cfg"
    and "server e (sent w) c1 = Reply r1" and "status r1 = 401"
    and "truthy (getItem (localStorage w) ''refresh_token'')"
    and "settle rq (server e (sent w @ [c1]) rq) = Resolved r2"
    and "c1 = request_fulfilled (localStorage w) cfg"
    and "rq = refresh_request e (js_string (getItem (localStorage w) ''refresh_token''))"
    and "c3 = c1\<lparr>retry := True,
            headers := AList.update ''Authorization'' (bearer (access (data r2)))
              (headers c1)\<rparr>"
  shows "api_request e w cfg =
     (settle c3 (server e (sent w @ [c1, rq]) c3),
      w\<lparr>localStorage := setItem (localStorage w) ''access_token'' (js_string (access (data r2))),
         sent := sent w @ [c1, rq, c3]\<rparr>)"
  using assms
  by (simp add: api_request_failed response_rejected_refresh response_rejected_resume_def Let_def
        api_request_retried reissued_unchanged)

lemma api_request_sends_first:
  "\<exists>rest. sent (snd (api_request e w cfg)) =
     sent w @ request_fulfilled (localStorage w) cfg # rest"
  apply (subst api_request.simps)
  apply (auto simp: dispatch_def send_def response_rejected_def response_rejected_begin_def
        response_rejected_resume_def api_request_retried Let_def
      split: outcome.splits suspended.splits step.splits prod.splits if_splits error.splits)
  done

text \<open>
  C6. For every failed response whose status is not 401 (a response with another status,
  or no response at all), or whose request is already marked as retried, the response
  interceptor sends nothing (no refresh exchange, no retry: the world, storage, location
  and network log, is the one it started from) and rejects with the error it was given.
\<close>

theorem other_failures_pass_through:
  "map_option status ro \<noteq> Some 401 \<or> retry cfg \<Longrightarrow>
   response_rejected e w (AxiosError cfg ro) = (Settled (Rejected (AxiosError cfg ro)), w)"
  by (rule response_rejected_pass)

theorem other_failures_pass_through_witness:
  "response_rejected demo_env stale_session
     (AxiosError boom (Some \<lparr>status = 500, data = no_body\<rparr>)) =
     (Settled (Rejected (AxiosError boom (Some \<lparr>status = 500, data = no_body\<rparr>))),
      stale_session) \<and>
   response_rejected demo_env stale_session (AxiosError down None) =
     (Settled (Rejected (AxiosError down None)), stale_session) \<and>
   response_rejected demo_env stale_session
     (AxiosError (patients_list\<lparr>retry := True\<rparr>) (Some \<lparr>status = 401, data = no_body\<rparr>)) =
     (Settled (Rejected (AxiosError (patients_list\<lparr>retry := True\<rparr>)
        (Some \<lparr>status = 401, data = no_body\<rparr>))), stale_session)"
proof -
  have 1: "map_option status (Some \<lparr>status = 500, data = no_body\<rparr>) \<noteq> Some 401 \<or> retry boom"
    by simp
  have 2: "map_option status None \<noteq> Some 401 \<or> retry down"
    by simp
  have 3: "map_option status (Some \<lparr>status = 401, data = no_body\<rparr>) \<noteq> Some 401 \<or>
      retry (patients_list\<lparr>retry := True\<rparr>)"
    by simp
  from other_failures_pass_through [OF 1] other_failures_pass_through [OF 2]
    other_failures_pass_through [OF 3]
  show ?thesis by blast
qed

text \<open>
  C2. A request that is not yet marked is answered 401, a refresh token is stored, and the
  refresh exchange rejects with \<open>refreshError\<close>. Then the call rejects with
  \<open>refreshError\<close>, the three session keys are gone from the store, the location is
  \<open>/login\<close>, and nothing but the request and the refresh exchange has gone out.
\<close>

theorem refresh_failure_clears_session:
  assumes "\<not> retry cfg"
    and "c1 = request_fulfilled (localStorage w) cfg"
    and "server e (sent w) c1 = Reply r1" and "status r1 = 401"
    and "truthy (getItem (localStorage w) ''refresh_token'')"
    and "rq = refresh_request e (js_string (getItem (localStorage w) ''refresh_token''))"
    and "settle rq (server e (sent w @ [c1]) rq) = Rejected refreshError"
    and "w' = snd (api_request e w cfg)"
  shows "fst (api_request e w cfg) = Rejected refreshError \<and>
         getItem (localStorage w') ''access_token'' = None \<and>
         getItem (localStorage w') ''refresh_token'' = None \<and>
         getItem (localStorage w') ''user'' = None \<and>
         location w' = ''/login'' \<and>
         sent w' = sent w @ [c1, rq]"
proof -
  have "api_request e w cfg =
     (Rejected refreshError,
      w\<lparr>localStorage :=
           removeItem (removeItem (removeItem (localStorage w) ''access_token'')
             ''refresh_token'') ''user'',
         location := ''/login'',
         sent := sent w @ [c1, rq]\<rparr>)"
    using assms(1,3,4,5,7,2,6) by (rule api_request_refresh_failed)
  with assms(8) show ?thesis by simp
qed

theorem refresh_failure_clears_session_witness:
  "fst (api_request demo_env dead_session patients_list) =
     Rejected (AxiosError (refresh_request demo_env ''revoked'')
       (Some \<lparr>status = 401, data = no_body\<rparr>)) \<and>
   getItem (localStorage (snd (api_request demo_env dead_session patients_list))) ''access_token'' = None \<and>
   getItem (localStorage (snd (api_request demo_env dead_session patients_list))) ''refresh_token'' = None \<and>
   getItem (localStorage (snd (api_request demo_env dead_session patients_list))) ''user'' = None \<and>
   location (snd (api_request demo_env dead_session patients_list)) = ''/login'' \<and>
   sent (snd (api_request demo_env dead_session patients_list)) =
     [request_fulfilled (localStorage dead_session) patients_list,
      refresh_request demo_env ''revoked'']"
proof -
  let ?c1 = "request_fulfilled (localStorage dead_session) patients_list"
  let ?rq = "refresh_request demo_env ''revoked''"
  let ?r = "\<lparr>status = 401, data = no_body\<rparr>"
  have 1: "\<not> retry patients_list"
    by (simp add: demo_defs)
  have 2: "server demo_env (sent dead_session) ?c1 = Reply ?r"
    by (simp add: demo_defs client_defs)
  have 3: "status ?r = 401"
    by simp
  have 4: "truthy (getItem (localStorage dead_session) ''refresh_token'')"
    by (simp add: demo_defs client_defs)
  have 5: "?rq = refresh_request demo_env (js_string (getItem (localStorage dead_session) ''refresh_token''))"
    by (simp add: demo_defs client_defs)
  have 6: "settle ?rq (server demo_env (sent dead_session @ [?c1]) ?rq) = Rejected (AxiosError ?rq (Some ?r))"
    by (simp add: demo_defs client_defs)
  have 7: "sent dead_session = []"
    by (simp add: demo_defs)
  from refresh_failure_clears_session [OF 1 refl 2 3 4 5 6 refl] 7
  show ?thesis by simp
qed

text \<open>
  C7. Calling \<open>logout()\<close> twice in succession leaves the token store empty after each
  call: \<open>access_token\<close>, \<open>refresh_token\<close> and \<open>user\<close> are absent after the first call
  and after the second, and the second call changes nothing. \<open>auth.logout\<close> has no
  throwing statement, so it is a total function on the world; the same holds for the
  \<open>logout\<close> of the provider, which also sets the user state to \<open>null\<close>.
\<close>

theorem logout_twice_store_empty:
  "getItem (localStorage (auth_logout w)) ''access_token'' = None \<and>
   getItem (localStorage (auth_logout w)) ''refresh_token'' = None \<and>
   getItem (localStorage (auth_logout w)) ''user'' = None \<and>
   getItem (localStorage (auth_logout (auth_logout w))) ''access_token'' = None \<and>
   getItem (localStorage (auth_logout (auth_logout w))) ''refresh_token'' = None \<and>
   getItem (localStorage (auth_logout (auth_logout w))) ''user'' = None \<and>
   auth_logout (auth_logout w) = auth_logout w \<and>
   browser (logout s) = auth_logout (browser s) \<and>
   user_state (logout s) = None \<and>
   logout (logout s) = logout s"
  by (simp add: logout_def setUser_def auth_logout_def removeItem_def getItem_def)

text \<open>
  C5. A request that is not yet marked is answered 401, a refresh token is stored, and the
  refresh exchange resolves with the response \<open>r2\<close>. When the call has settled, the
  store is the one before it with \<open>access_token\<close> set to the \<open>access\<close> field of
  \<open>r2\<close> (its string form), and nothing else: \<open>refresh_token\<close> and \<open>user\<close> read
  as before. The reissued request does not touch the store, whatever its outcome.
\<close>

theorem refresh_replaces_access_token_only:
  assumes "\<not> retry cfg"
    and "c1 = request_fulfilled (localStorage w) cfg"
    and "server e (sent w) c1 = Reply r1" and "status r1 = 401"
    and "truthy (getItem (localStorage w) ''refresh_token'')"
    and "rq = refresh_request e (js_string (getItem (localStorage w) ''refresh_token''))"
    and "settle rq (server e (sent w @ [c1]) rq) = Resolved r2"
    and "w' = snd (api_request e w cfg)"
  shows "localStorage w' = (localStorage w)(''access_token'' \<mapsto> js_string (access (data r2))) \<and>
         getItem (localStorage w') ''access_token'' = Some (js_string (access (data r2))) \<and>
         getItem (localStorage w') ''refresh_token'' = getItem (localStorage w) ''refresh_token'' \<and>
         getItem (localStorage w') ''user'' = getItem (localStorage w) ''user''"
proof -
  let ?c3 = "c1\<lparr>retry := True,
      headers := AList.update ''Authorization'' (bearer (access (data r2))) (headers c1)\<rparr>"
  have "api_request e w cfg =
     (settle ?c3 (server e (sent w @ [c1, rq]) ?c3),
      w\<lparr>localStorage := setItem (localStorage w) ''access_token'' (js_string (access (data r2))),
         sent := sent w @ [c1, rq, ?c3]\<rparr>)"
    using assms(1,3,4,5,7,2,6) refl by (rule api_request_refreshed)
  with assms(8) show ?thesis by (simp add: setItem_def getItem_def)
qed

theorem refresh_replaces_access_token_only_witness:
  "localStorage (snd (api_request demo_env stale_session patients_list)) =
     (localStorage stale_session)(''access_token'' \<mapsto> ''fresh'') \<and>
   getItem (localStorage (snd (api_request demo_env stale_session patients_list))) ''access_token'' = Some ''fresh'' \<and>
   getItem (localStorage (snd (api_request demo_env stale_session patients_list))) ''refresh_token'' = Some ''r1'' \<and>
   getItem (localStorage (snd (api_request demo_env stale_session patients_list))) ''user'' = Some ''{}''"
proof -
  let ?c1 = "request_fulfilled (localStorage stale_session) patients_list"
  let ?rq = "refresh_request demo_env ''r1''"
  let ?r = "\<lparr>status = 401, data = no_body\<rparr>"
  let ?r2 = "\<lparr>status = 200, data = no_body\<lparr>access := Some ''fresh''\<rparr>\<rparr>"
  have 1: "\<not> retry patients_list"
    by (simp add: demo_defs)
  have 2: "server demo_env (sent stale_session) ?c1 = Reply ?r"
    by (simp add: demo_defs client_defs)
  have 3: "status ?r = 401"
    by simp
  have 4: "truthy (getItem (localStorage stale_session) ''refresh_token'')"
    by (simp add: demo_defs client_defs)
  have 5: "?rq = refresh_request demo_env (js_string (getItem (localStorage stale_session) ''refresh_token''))"
    by (simp add: demo_defs client_defs)
  have 6: "settle ?rq (server demo_env (sent stale_session @ [?c1]) ?rq) = Resolved ?r2"
    by (simp add: demo_defs client_defs)
  have 7: "getItem (localStorage stale_session) ''refresh_token'' = Some ''r1''"
    "getItem (localStorage stale_session) ''user'' = Some ''{}''"
    "js_string (access (data ?r2)) = ''fresh''"
    by (simp_all add: demo_defs client_defs)
  from refresh_replaces_access_token_only [OF 1 refl 2 3 4 5 6 refl] 7
  show ?thesis by (simp add: getItem_def)
qed

text \<open>
  C1. The claim as stated fails when the refresh exchange itself is rejected: with a full
  session stored whose refresh token the server refuses, a request answered 401 and not
  yet marked goes out once, the refresh exchange goes out once, the request is never
  reissued, and the call rejects with the refresh error.
\<close>

theorem refresh_failure_counterexample:
  "truthy (getItem (localStorage dead_session) ''access_token'') \<and>
   truthy (getItem (localStorage dead_session) ''refresh_token'') \<and>
   truthy (getItem (localStorage dead_session) ''user'') \<and>
   \<not> retry patients_list \<and>
   server demo_env (sent dead_session) (request_fulfilled (localStorage dead_session) patients_list) =
     Reply \<lparr>status = 401, data = no_body\<rparr> \<and>
   sent (snd (api_request demo_env dead_session patients_list)) =
     [patients_list\<lparr>headers := [(''Authorization'', ''Bearer stale'')]\<rparr>,
      refresh_request demo_env ''revoked''] \<and>
   fst (api_request demo_env dead_session patients_list) =
     Rejected (AxiosError (refresh_request demo_env ''revoked'')
       (Some \<lparr>status = 401, data = no_body\<rparr>))"
  by (simp add: api_request.simps demo_defs client_defs)

text \<open>
  C1, amended. A request that is not yet marked is answered 401 while a non-empty refresh
  token is stored, and the refresh exchange succeeds with the response \<open>r2\<close>. Then
  exactly three requests go out, in this order: the request, one refresh exchange, and the
  request again, marked as retried and carrying \<open>Bearer\<close> followed by the new access
  token as its authorization header; the call settles as that reissued request settles
  (resolved with its response, or rejected with its error, with no further refresh).
\<close>

theorem retry_once_after_refresh:
  assumes "\<not> retry cfg"
    and "c1 = request_fulfilled (localStorage w) cfg"
    and "server e (sent w) c1 = Reply r1" and "status r1 = 401"
    and "truthy (getItem (localStorage w) ''refresh_token'')"
    and "rq = refresh_request e (js_string (getItem (localStorage w) ''refresh_token''))"
    and "settle rq (server e (sent w @ [c1]) rq) = Resolved r2"
    and "c3 = c1\<lparr>retry := True,
            headers := AList.update ''Authorization'' (bearer (access (data r2))) (headers c1)\<rparr>"
  shows "sent (snd (api_request e w cfg)) = sent w @ [c1, rq, c3] \<and>
         map_of (headers c3) ''Authorization'' = Some (''Bearer '' @ js_string (access (data r2))) \<and>
         fst (api_request e w cfg) = settle c3 (server e (sent w @ [c1, rq]) c3)"
proof -
  have "api_request e w cfg =
     (settle c3 (server e (sent w @ [c1, rq]) c3),
      w\<lparr>localStorage := setItem (localStorage w) ''access_token'' (js_string (access (data r2))),
         sent := sent w @ [c1, rq, c3]\<rparr>)"
    using assms(1,3,4,5,7,2,6,8) by (rule api_request_refreshed)
  moreover have "map_of (headers c3) ''Authorization'' = Some (''Bearer '' @ js_string (access (data r2)))"
    using assms(8) by (simp add: AList.update_conv' bearer_def)
  ultimately show ?thesis by simp
qed

theorem retry_once_after_refresh_witness:
  "sent (snd (api_request demo_env stale_session patients_list)) =
     [patients_list\<lparr>headers := [(''Authorization'', ''Bearer stale'')]\<rparr>,
      refresh_request demo_env ''r1'',
      patients_list\<lparr>headers := [(''Authorization'', ''Bearer fresh'')], retry := True\<rparr>] \<and>
   fst (api_request demo_env stale_session patients_list) = Resolved \<lparr>status = 200, data = no_body\<rparr>"
proof -
  let ?c1 = "request_fulfilled (localStorage stale_session) patients_list"
  let ?rq = "refresh_request demo_env ''r1''"
  let ?r = "\<lparr>status = 401, data = no_body\<rparr>"
  let ?r2 = "\<lparr>status = 200, data = no_body\<lparr>access := Some ''fresh''\<rparr>\<rparr>"
  let ?c3 = "patients_list\<lparr>headers := [(''Authorization'', ''Bearer fresh'')], retry := True\<rparr>"
  have 1: "\<not> retry patients_list"
    by (simp add: demo_defs)
  have 2: "server demo_env (sent stale_session) ?c1 = Reply ?r"
    by (simp add: demo_defs client_defs)
  have 3: "status ?r = 401"
    by simp
  have 4: "truthy (getItem (localStorage stale_session) ''refresh_token'')"
    by (simp add: demo_defs client_defs)
  have 5: "?rq = refresh_request demo_env (js_string (getItem (localStorage stale_session) ''refresh_token''))"
    by (simp add: demo_defs client_defs)
  have 6: "settle ?rq (server demo_env (sent stale_session @ [?c1]) ?rq) = Resolved ?r2"
    by (simp add: demo_defs client_defs)
  have 7: "?c3 = ?c1\<lparr>retry := True,
            headers := AList.update ''Authorization'' (bearer (access (data ?r2))) (headers ?c1)\<rparr>"
    by (simp add: demo_defs client_defs)
  have 8: "?c1 = patients_list\<lparr>headers := [(''Authorization'', ''Bearer stale'')]\<rparr>"
    "sent stale_session = []"
    "settle ?c3 (server demo_env ([] @ [?c1, ?rq]) ?c3) = Resolved \<lparr>status = 200, data = no_body\<rparr>"
    by (simp_all add: demo_defs client_defs)
  from retry_once_after_refresh [OF 1 refl 2 3 4 5 6 7] 8
  show ?thesis by simp
qed

text \<open>
  C3. The claim as stated fails: with an access token and no refresh token stored, a
  request answered 401 and not yet marked leaves the store as it was (the access token is
  still there), leaves the location where it was, sends no refresh exchange, and rejects
  with the 401 error of the request itself.
\<close>

theorem no_refresh_token_counterexample:
  "getItem (localStorage access_only) ''refresh_token'' = None \<and>
   \<not> retry patients_list \<and>
   server demo_env (sent access_only) (request_fulfilled (localStorage access_only) patients_list) =
     Reply \<lparr>status = 401, data = no_body\<rparr> \<and>
   getItem (localStorage (snd (api_request demo_env access_only patients_list))) ''access_token'' =
     Some ''stale'' \<and>
   location (snd (api_request demo_env access_only patients_list)) = ''/dashboard'' \<and>
   sent (snd (api_request demo_env access_only patients_list)) =
     [patients_list\<lparr>headers := [(''Authorization'', ''Bearer stale'')]\<rparr>] \<and>
   fst (api_request demo_env access_only patients_list) =
     Rejected (AxiosError
       (patients_list\<lparr>headers := [(''Authorization'', ''Bearer stale'')], retry := True\<rparr>)
       (Some \<lparr>status = 401, data = no_body\<rparr>))"
  by (simp add: api_request.simps demo_defs client_defs)

text \<open>
  C3, amended. For every request that fails with status 401 and is not yet marked as
  retried, if no refresh token is stored (the key is absent or holds the empty string),
  the client marks the request as retried and rejects the call with the 401 error of the
  request; it sends no refresh exchange and leaves the store and the location unchanged.
\<close>

theorem no_refresh_token_rejects_unchanged:
  assumes "\<not> retry cfg"
    and "c1 = request_fulfilled (localStorage w) cfg"
    and "server e (sent w) c1 = Reply r1" and "status r1 = 401"
    and "\<not> truthy (getItem (localStorage w) ''refresh_token'')"
  shows "api_request e w cfg =
           (Rejected (AxiosError (c1\<lparr>retry := True\<rparr>) (Some r1)), w\<lparr>sent := sent w @ [c1]\<rparr>)"
  using assms(1) assms(3,4,5) [unfolded assms(2)] unfolding assms(2)
  by (rule api_request_no_refresh_token)

theorem no_refresh_token_rejects_unchanged_witness:
  "api_request demo_env access_only patients_list =
     (Rejected (AxiosError
        (patients_list\<lparr>headers := [(''Authorization'', ''Bearer stale'')], retry := True\<rparr>)
        (Some \<lparr>status = 401, data = no_body\<rparr>)),
      access_only\<lparr>sent := [patients_list\<lparr>headers := [(''Authorization'', ''Bearer stale'')]\<rparr>]\<rparr>)"
proof -
  let ?c1 = "patients_list\<lparr>headers := [(''Authorization'', ''Bearer stale'')]\<rparr>"
  let ?r = "\<lparr>status = 401, data = no_body\<rparr>"
  have 1: "\<not> retry patients_list"
    by (simp add: demo_defs)
  have 2: "?c1 = request_fulfilled (localStorage access_only) patients_list"
    by (simp add: demo_defs client_defs)
  have 3: "server demo_env (sent access_only) ?c1 = Reply ?r"
    by (simp add: demo_defs client_defs)
  have 4: "status ?r = 401"
    by simp
  have 5: "\<not> truthy (getItem (localStorage access_only) ''refresh_token'')"
    by (simp add: demo_defs client_defs)
  have 6: "sent access_only = []"
    by (simp add: demo_defs)
  from no_refresh_token_rejects_unchanged [OF 1 2 3 4 5] 6
  show ?thesis by simp
qed

text \<open>
  C4. The claim as stated fails on a stored access token that is the empty string: the
  key is present, \<open>if (token)\<close> is false, and the request goes out with no
  authorization header.
\<close>

theorem empty_token_counterexample:
  "getItem (localStorage blank_token) ''access_token'' = Some [] \<and>
   map_of (headers (request_fulfilled (localStorage blank_token) patients_list)) ''Authorization'' = None \<and>
   sent (snd (api_request demo_env blank_token patients_list)) = [patients_list] \<and>
   map_of (headers patients_list) ''Authorization'' = None"
  by (simp add: api_request.simps demo_defs client_defs)

text \<open>
  C4, amended. For every outbound request made through the API client that carries no
  authorization header of its own (as the requests of the domain clients do), the request
  goes out with the header \<open>Bearer\<close> followed by the stored access token if and only
  if a non-empty access token is stored; when the key is absent or holds the empty
  string, the request goes out with no authorization header. The request that goes out
  first for a call is the one the request interceptor returns.
\<close>

theorem bearer_attached_iff_token:
  assumes "map_of (headers cfg) ''Authorization'' = None"
    and "c1 = request_fulfilled (localStorage w) cfg"
  shows "map_of (headers c1) ''Authorization'' =
           (case getItem (localStorage w) ''access_token'' of
              None \<Rightarrow> None
            | Some token \<Rightarrow> if token = [] then None else Some (''Bearer '' @ token)) \<and>
         (\<exists>rest. sent (snd (api_request e w cfg)) = sent w @ c1 # rest)"
  using assms api_request_sends_first [of e w cfg]
  by (simp add: request_fulfilled_def truthy_def bearer_def js_string_def Let_def
        AList.update_conv' split: option.splits)

theorem bearer_attached_iff_token_witness:
  "map_of (headers (request_fulfilled (localStorage stale_session) patients_list)) ''Authorization'' =
     Some ''Bearer stale'' \<and>
   (\<exists>rest. sent (snd (api_request demo_env stale_session patients_list)) =
      request_fulfilled (localStorage stale_session) patients_list # rest)"
proof -
  have 1: "map_of (headers patients_list) ''Authorization'' = None"
    by (simp add: demo_defs)
  have 2: "getItem (localStorage stale_session) ''access_token'' = Some ''stale''"
    "sent stale_session = []"
    by (simp_all add: demo_defs client_defs)
  from bearer_attached_iff_token [OF 1 refl, of stale_session demo_env] 2
  show ?thesis by simp
qed

text \<open>
  C8. For every uploaded file, \<open>analyzeImage\<close> sets the analysing flag, waits on a
  timer of 3000 ms, and then hands \<open>onAnalysisComplete\<close> a result whose
  \<open>prediction\<close>, \<open>confidence\<close> (0.87), \<open>severity\<close>, \<open>recommendations\<close>,
  \<open>detectedFeatures\<close> and \<open>riskFactors\<close> are fixed constants. Only \<open>filename\<close>
  (the name of the file) and \<open>analysisDate\<close> (the time read after the delay) vary: the
  result for a file \<open>f\<close> at time \<open>now\<close> is the result for any other file \<open>g\<close> at
  any other time, with those two fields replaced. In particular two files that differ in
  their bytes only get equal results at equal times.
\<close>

theorem analyzeImage_result_is_fixed:
  "take 3 (analyzeImage throws now (Some f)) =
     [SetIsAnalyzing True, SetTimeout 3000, OnAnalysisComplete (mockResult f now)] \<and>
   last (analyzeImage throws now (Some f)) = SetIsAnalyzing False \<and>
   prediction (mockResult f now) = ''Diabetic Retinopathy Detected'' \<and>
   confidence (mockResult f now) = 87 / 100 \<and>
   severity (mockResult f now) = ''Moderate'' \<and>
   recommendations (mockResult f now) =
     [''Consult with ophthalmologist within 2 weeks'',
      ''Monitor blood sugar levels closely'',
      ''Schedule follow-up examination in 3 months''] \<and>
   detectedFeatures (mockResult f now) =
     [''Microaneurysms present'', ''Hard exudates detected'', ''Cotton wool spots identified''] \<and>
   riskFactors (mockResult f now) = [''Diabetes'', ''Hypertension''] \<and>
   filename (mockResult f now) = name f \<and>
   analysisDate (mockResult f now) = now \<and>
   mockResult f now = (mockResult g later)\<lparr>filename := name f, analysisDate := now\<rparr> \<and>
   mockResult (f\<lparr>bytes := bs\<rparr>) now = mockResult f now"
  by (simp add: analyzeImage_def mockResult_def)

lemma api_request_store_unchanged:
  assumes "settle (request_fulfilled (localStorage w) cfg)
             (server e (sent w) (request_fulfilled (localStorage w) cfg)) =
           Rejected (AxiosError (request_fulfilled (localStorage w) cfg) ro)"
    and "map_option status ro \<noteq> Some 401 \<or> \<not> truthy (getItem (localStorage w) ''refresh_token'')"
  shows "\<exists>err. api_request e w cfg =
           (Rejected err, w\<lparr>sent := sent w @ [request_fulfilled (localStorage w) cfg]\<rparr>)"
  using assms
  apply (subst api_request.simps)
  apply (auto simp: dispatch_def send_def response_rejected_def response_rejected_begin_def Let_def)
  done

text \<open>The states \<open>login\<close> passes through after a resolved request.\<close>

lemma login_statements_trace:
  "states_through s0 (login_statements stringify response) =
     [s0,
      store_item ''access_token'' (js_string (access response)) s0,
      store_item ''refresh_token'' (js_string (refresh response))
        (store_item ''access_token'' (js_string (access response)) s0),
      store_item ''user'' (js_string (map_option stringify (user response)))
        (store_item ''refresh_token'' (js_string (refresh response))
          (store_item ''access_token'' (js_string (access response)) s0)),
      setUser (user response)
        (store_item ''user'' (js_string (map_option stringify (user response)))
          (store_item ''refresh_token'' (js_string (refresh response))
            (store_item ''access_token'' (js_string (access response)) s0)))]"
  by (simp add: login_statements_def)

text \<open>
  C10. The claim as stated fails: a rejected login can leave a session key written. The
  tab holds a session whose access token has expired and whose refresh token is good (the
  provider's user state is \<open>null\<close>), and the user signs in with a wrong password. The
  login request is answered 401, the response interceptor refreshes, stores the new
  access token and reissues the login, which is answered 401 again: \<open>login\<close> rejects,
  and \<open>access_token\<close> has been replaced.
\<close>

theorem login_rejected_counterexample:
  "user_state late_visitor = None \<and>
   getItem (localStorage (browser late_visitor)) ''access_token'' = Some ''stale'' \<and>
   fst (login demo_env demo_stringify late_visitor (''testdoctor'', ''wrong'')) =
     Inl (AxiosError
       (api_post demo_env ''/auth/login/''
          (JsonObject [(''username'', ''testdoctor''), (''password'', ''wrong'')])
        \<lparr>headers := [(''Authorization'', ''Bearer fresh'')], retry := True\<rparr>)
       (Some \<lparr>status = 401, data = no_body\<rparr>)) \<and>
   getItem (localStorage (browser (snd (login demo_env demo_stringify late_visitor
      (''testdoctor'', ''wrong''))))) ''access_token'' = Some ''fresh''"
  by (simp add: login_def login_trace_def auth_login_def late_visitor_def api_request.simps
        demo_defs client_defs)

text \<open>
  C10, amended. If the login request rejects, \<open>login\<close> itself writes no session key,
  leaves the user state as it was (\<open>null\<close> if it was \<open>null\<close>) and rethrows the error:
  the provider passes through one state only, the one the request left. The store is then
  as the response interceptor left it: unchanged when the first answer to the login
  request was not a 401 (another status, or no response) or no non-empty refresh token
  was stored; with the three keys removed and the location \<open>/login\<close> when the first
  answer was a 401 and the refresh exchange was rejected; with \<open>access_token\<close>
  replaced by the refreshed token when the first answer was a 401 and the refresh
  exchange succeeded, however the reissued login is answered. If the login request
  resolves, the three keys are written from the response, \<open>access_token\<close>, then
  \<open>refresh_token\<close>, then \<open>user\<close>, the user state being as it was after each of
  these writes, and the user state is set after the third, which leaves the store as the
  writes made it.
\<close>

theorem login_store_effects:
  assumes "auth_login e (browser s) credentials = (r, w1)"
    and "login_trace e stringify s credentials = (out, states)"
    and "c1 = request_fulfilled (localStorage (browser s))
            (api_post e ''/auth/login/''
               (JsonObject [(''username'', fst credentials), (''password'', snd credentials)]))"
    and "rq = refresh_request e (js_string (getItem (localStorage (browser s)) ''refresh_token''))"
  shows "(\<forall>err. r = Inl err \<longrightarrow>
            out = Inl err \<and> states = [s\<lparr>browser := w1\<rparr>] \<and>
            login e stringify s credentials = (Inl err, s\<lparr>browser := w1\<rparr>)) \<and>
         (\<forall>ro. settle c1 (server e (sent (browser s)) c1) = Rejected (AxiosError c1 ro) \<and>
               (map_option status ro \<noteq> Some 401 \<or>
                \<not> truthy (getItem (localStorage (browser s)) ''refresh_token'')) \<longrightarrow>
            (\<exists>err. r = Inl err) \<and> w1 = (browser s)\<lparr>sent := sent (browser s) @ [c1]\<rparr>) \<and>
         (\<forall>r1 refreshError.
            server e (sent (browser s)) c1 = Reply r1 \<and> status r1 = 401 \<and>
            truthy (getItem (localStorage (browser s)) ''refresh_token'') \<and>
            settle rq (server e (sent (browser s) @ [c1]) rq) = Rejected refreshError \<longrightarrow>
            r = Inl refreshError \<and>
            getItem (localStorage w1) ''access_token'' = None \<and>
            getItem (localStorage w1) ''refresh_token'' = None \<and>
            getItem (localStorage w1) ''user'' = None \<and>
            location w1 = ''/login'') \<and>
         (\<forall>r1 r2.
            server e (sent (browser s)) c1 = Reply r1 \<and> status r1 = 401 \<and>
            truthy (getItem (localStorage (browser s)) ''refresh_token'') \<and>
            settle rq (server e (sent (browser s) @ [c1]) rq) = Resolved r2 \<longrightarrow>
            localStorage w1 =
              (localStorage (browser s))(''access_token'' \<mapsto> js_string (access (data r2)))) \<and>
         (\<forall>response. r = Inr response \<longrightarrow>
            out = Inr () \<and>
            length states = 5 \<and>
            states ! 0 = s\<lparr>browser := w1\<rparr> \<and>
            states ! 1 = store_item ''access_token'' (js_string (access response)) (states ! 0) \<and>
            states ! 2 = store_item ''refresh_token'' (js_string (refresh response)) (states ! 1) \<and>
            states ! 3 =
              store_item ''user'' (js_string (map_option stringify (user response))) (states ! 2) \<and>
            states ! 4 = setUser (user response) (states ! 3) \<and>
            getItem (localStorage (browser (states ! 3))) ''access_token'' =
              Some (js_string (access response)) \<and>
            getItem (localStorage (browser (states ! 3))) ''refresh_token'' =
              Some (js_string (refresh response)) \<and>
            getItem (localStorage (browser (states ! 3))) ''user'' =
              Some (js_string (map_option stringify (user response))) \<and>
            user_state (states ! 0) = user_state s \<and>
            user_state (states ! 1) = user_state s \<and>
            user_state (states ! 2) = user_state s \<and>
            user_state (states ! 3) = user_state s \<and>
            user_state (states ! 4) = user response \<and>
            localStorage (browser (states ! 4)) = localStorage (browser (states ! 3)) \<and>
            login e stringify s credentials = (Inr (), states ! 4))"
proof (intro conjI allI impI)
  fix err assume "r = Inl err"
  with assms(1,2) show "out = Inl err" "states = [s\<lparr>browser := w1\<rparr>]"
    "login e stringify s credentials = (Inl err, s\<lparr>browser := w1\<rparr>)"
    by (auto simp: login_def login_trace_def)
next
  fix ro
  assume a: "settle c1 (server e (sent (browser s)) c1) = Rejected (AxiosError c1 ro) \<and>
      (map_option status ro \<noteq> Some 401 \<or> \<not> truthy (getItem (localStorage (browser s)) ''refresh_token''))"
  from api_request_store_unchanged [OF a [unfolded assms(3), THEN conjunct1] a [THEN conjunct2]]
  obtain err where "api_request e (browser s) (api_post e ''/auth/login/''
               (JsonObject [(''username'', fst credentials), (''password'', snd credentials)])) =
           (Rejected err, (browser s)\<lparr>sent := sent (browser s) @ [c1]\<rparr>)"
    unfolding assms(3) by blast
  with assms(1) show "\<exists>err. r = Inl err" "w1 = (browser s)\<lparr>sent := sent (browser s) @ [c1]\<rparr>"
    by (auto simp: auth_login_def)
next
  fix r1 refreshError
  assume b: "server e (sent (browser s)) c1 = Reply r1 \<and> status r1 = 401 \<and>
      truthy (getItem (localStorage (browser s)) ''refresh_token'') \<and>
      settle rq (server e (sent (browser s) @ [c1]) rq) = Rejected refreshError"
  have "\<not> retry (api_post e ''/auth/login/''
      (JsonObject [(''username'', fst credentials), (''password'', snd credentials)]))"
    by (simp add: api_post_def)
  from api_request_refresh_failed [OF this b [THEN conjunct1] b [THEN conjunct2, THEN conjunct1]
      b [THEN conjunct2, THEN conjunct2, THEN conjunct1]
      b [THEN conjunct2, THEN conjunct2, THEN conjunct2] assms(3,4)] assms(1)
  have "r = Inl refreshError \<and>
      w1 = (browser s)\<lparr>localStorage :=
           removeItem (removeItem (removeItem (localStorage (browser s)) ''access_token'')
             ''refresh_token'') ''user'',
         location := ''/login'', sent := sent (browser s) @ [c1, rq]\<rparr>"
    by (auto simp: auth_login_def)
  then show "r = Inl refreshError"
    "getItem (localStorage w1) ''access_token'' = None"
    "getItem (localStorage w1) ''refresh_token'' = None"
    "getItem (localStorage w1) ''user'' = None"
    "location w1 = ''/login''"
    by simp_all
next
  fix r1 r2
  assume c: "server e (sent (browser s)) c1 = Reply r1 \<and> status r1 = 401 \<and>
      truthy (getItem (localStorage (browser s)) ''refresh_token'') \<and>
      settle rq (server e (sent (browser s) @ [c1]) rq) = Resolved r2"
  have "\<not> retry (api_post e ''/auth/login/''
      (JsonObject [(''username'', fst credentials), (''password'', snd credentials)]))"
    by (simp add: api_post_def)
  from api_request_refreshed [OF this c [THEN conjunct1] c [THEN conjunct2, THEN conjunct1]
      c [THEN conjunct2, THEN conjunct2, THEN conjunct1]
      c [THEN conjunct2, THEN conjunct2, THEN conjunct2] assms(3,4) refl] assms(1)
  have "localStorage w1 = setItem (localStorage (browser s)) ''access_token'' (js_string (access (data r2)))"
    by (auto simp: auth_login_def split: outcome.splits)
  then show "localStorage w1 =
      (localStorage (browser s))(''access_token'' \<mapsto> js_string (access (data r2)))"
    by (simp add: setItem_def)
next
  fix response assume r: "r = Inr response"
  with assms(1,2) have out: "out = Inr ()"
    and states: "states = states_through (s\<lparr>browser := w1\<rparr>) (login_statements stringify response)"
    by (auto simp: login_trace_def)
  from out show "out = Inr ()" .
  note tr = states [unfolded login_statements_trace]
  from tr show "length states = 5" "states ! 0 = s\<lparr>browser := w1\<rparr>"
    "states ! 1 = store_item ''access_token'' (js_string (access response)) (states ! 0)"
    "states ! 2 = store_item ''refresh_token'' (js_string (refresh response)) (states ! 1)"
    "states ! 3 = store_item ''user'' (js_string (map_option stringify (user response))) (states ! 2)"
    "states ! 4 = setUser (user response) (states ! 3)"
    by simp_all
  from tr show "getItem (localStorage (browser (states ! 3))) ''access_token'' =
      Some (js_string (access response))"
    "getItem (localStorage (browser (states ! 3))) ''refresh_token'' =
      Some (js_string (refresh response))"
    "getItem (localStorage (browser (states ! 3))) ''user'' =
      Some (js_string (map_option stringify (user response)))"
    by (simp_all add: store_item_def getItem_def setItem_def)
  from tr show "user_state (states ! 0) = user_state s" "user_state (states ! 1) = user_state s"
    "user_state (states ! 2) = user_state s" "user_state (states ! 3) = user_state s"
    "user_state (states ! 4) = user response"
    "localStorage (browser (states ! 4)) = localStorage (browser (states ! 3))"
    by (simp_all add: store_item_def setUser_def)
  from tr assms(2) out show "login e stringify s credentials = (Inr (), states ! 4)"
    by (simp add: login_def)
qed


theorem login_store_effects_witness:
  "fst (login_trace demo_env demo_stringify fresh_visitor (''testdoctor'', ''testpass123'')) = Inr () \<and>
   length (snd (login_trace demo_env demo_stringify fresh_visitor (''testdoctor'', ''testpass123''))) = 5 \<and>
   getItem (localStorage (browser
      (snd (login_trace demo_env demo_stringify fresh_visitor (''testdoctor'', ''testpass123'')) ! 3)))
      ''access_token'' = Some ''fresh'' \<and>
   getItem (localStorage (browser
      (snd (login_trace demo_env demo_stringify fresh_visitor (''testdoctor'', ''testpass123'')) ! 3)))
      ''refresh_token'' = Some ''r1'' \<and>
   getItem (localStorage (browser
      (snd (login_trace demo_env demo_stringify fresh_visitor (''testdoctor'', ''testpass123'')) ! 3)))
      ''user'' = Some (demo_stringify demo_user) \<and>
   user_state
      (snd (login_trace demo_env demo_stringify fresh_visitor (''testdoctor'', ''testpass123'')) ! 3) =
      None \<and>
   user_state
      (snd (login_trace demo_env demo_stringify fresh_visitor (''testdoctor'', ''testpass123'')) ! 4) =
      Some demo_user \<and>
   login demo_env demo_stringify fresh_visitor (''testdoctor'', ''testpass123'') =
     (Inr (),
      snd (login_trace demo_env demo_stringify fresh_visitor (''testdoctor'', ''testpass123'')) ! 4) \<and>
   (\<exists>err. login demo_env demo_stringify fresh_visitor (''testdoctor'', ''wrong'') =
      (Inl err, fresh_visitor\<lparr>browser := (browser fresh_visitor)\<lparr>sent :=
         [api_post demo_env ''/auth/login/''
            (JsonObject [(''username'', ''testdoctor''), (''password'', ''wrong'')])]\<rparr>\<rparr>)) \<and>
   localStorage (snd (auth_login demo_env (browser late_visitor) (''testdoctor'', ''wrong''))) =
     (localStorage (browser late_visitor))(''access_token'' \<mapsto> ''fresh'')"
proof -
  let ?good = "(''testdoctor'', ''testpass123'')"
  let ?bad = "(''testdoctor'', ''wrong'')"
  let ?body = "\<lparr>access = Some ''fresh'', refresh = Some ''r1'', user = Some demo_user\<rparr>"
  let ?c = "api_post demo_env ''/auth/login/''
      (JsonObject [(''username'', ''testdoctor''), (''password'', ''wrong'')])"
  let ?denied = "\<lparr>status = 401, data = no_body\<rparr>"
  have good: "auth_login demo_env (browser fresh_visitor) ?good =
      (Inr ?body, snd (auth_login demo_env (browser fresh_visitor) ?good))"
    by (simp add: auth_login_def fresh_visitor_def api_request.simps demo_defs client_defs)
  note g = login_store_effects [where stringify = demo_stringify, OF good surjective_pairing refl refl,
      THEN conjunct2, THEN conjunct2, THEN conjunct2, THEN conjunct2, rule_format, OF refl]
  have start: "user_state fresh_visitor = None"
    by (simp add: fresh_visitor_def)
  let ?st = "snd (login_trace demo_env demo_stringify fresh_visitor ?good)"
  from g have k: "fst (login_trace demo_env demo_stringify fresh_visitor ?good) = Inr ()"
    "length ?st = 5"
    "getItem (localStorage (browser (?st ! 3))) ''access_token'' = Some (js_string (access ?body))"
    "getItem (localStorage (browser (?st ! 3))) ''refresh_token'' = Some (js_string (refresh ?body))"
    "getItem (localStorage (browser (?st ! 3))) ''user'' =
       Some (js_string (map_option demo_stringify (user ?body)))"
    "user_state (?st ! 3) = user_state fresh_visitor"
    "user_state (?st ! 4) = user ?body"
    "login demo_env demo_stringify fresh_visitor ?good = (Inr (), ?st ! 4)"
    by blast+
  have 1: "fst (login_trace demo_env demo_stringify fresh_visitor ?good) = Inr ()"
    "length ?st = 5"
    "getItem (localStorage (browser (?st ! 3))) ''access_token'' = Some ''fresh''"
    "getItem (localStorage (browser (?st ! 3))) ''refresh_token'' = Some ''r1''"
    "getItem (localStorage (browser (?st ! 3))) ''user'' = Some (demo_stringify demo_user)"
    "user_state (?st ! 3) = None"
    "user_state (?st ! 4) = Some demo_user"
    "login demo_env demo_stringify fresh_visitor ?good = (Inr (), ?st ! 4)"
    using k(1) k(2) k(3) [simplified js_string_def] k(4) [simplified js_string_def]
      k(5) [simplified js_string_def] k(6) [unfolded start] k(7) k(8)
    by simp_all
  note b = login_store_effects [where stringify = demo_stringify and s = fresh_visitor
      and credentials = ?bad and e = demo_env, OF surjective_pairing surjective_pairing refl refl,
      simplified fst_conv snd_conv]
  have c1: "request_fulfilled (localStorage (browser fresh_visitor)) ?c = ?c"
    by (simp add: fresh_visitor_def demo_defs client_defs)
  have rejected: "settle ?c (server demo_env (sent (browser fresh_visitor)) ?c) =
      Rejected (AxiosError ?c (Some ?denied))"
    by (simp add: fresh_visitor_def demo_defs client_defs)
  have no_token: "\<not> truthy (getItem (localStorage (browser fresh_visitor)) ''refresh_token'')"
    by (simp add: fresh_visitor_def demo_defs client_defs)
  have log: "sent (browser fresh_visitor) = []"
    by (simp add: fresh_visitor_def demo_defs)
  from b [unfolded c1, THEN conjunct2, THEN conjunct1] rejected no_token
  have 2: "\<exists>err. fst (auth_login demo_env (browser fresh_visitor) ?bad) = Inl err"
    and 3: "snd (auth_login demo_env (browser fresh_visitor) ?bad) =
       (browser fresh_visitor)\<lparr>sent := sent (browser fresh_visitor) @ [?c]\<rparr>"
    by blast+
  from b [THEN conjunct1] 2 3 log have 4: "\<exists>err. login demo_env demo_stringify fresh_visitor ?bad =
      (Inl err, fresh_visitor\<lparr>browser := (browser fresh_visitor)\<lparr>sent := [?c]\<rparr>\<rparr>)"
    by auto
  note l = login_store_effects [where stringify = demo_stringify and s = late_visitor
      and credentials = ?bad and e = demo_env, OF surjective_pairing surjective_pairing refl refl,
      simplified fst_conv snd_conv]
  let ?c' = "?c\<lparr>headers := [(''Authorization'', ''Bearer stale'')]\<rparr>"
  let ?rq = "refresh_request demo_env ''r1''"
  have c1': "request_fulfilled (localStorage (browser late_visitor)) ?c = ?c'"
    "refresh_request demo_env (js_string (getItem (localStorage (browser late_visitor)) ''refresh_token'')) = ?rq"
    by (simp_all add: late_visitor_def demo_defs client_defs)
  have first: "server demo_env (sent (browser late_visitor)) ?c' = Reply ?denied" "status ?denied = 401"
    "truthy (getItem (localStorage (browser late_visitor)) ''refresh_token'')"
    "settle ?rq (server demo_env (sent (browser late_visitor) @ [?c']) ?rq) =
       Resolved \<lparr>status = 200, data = no_body\<lparr>access := Some ''fresh''\<rparr>\<rparr>"
    by (simp_all add: late_visitor_def demo_defs client_defs)
  from l [unfolded c1', THEN conjunct2, THEN conjunct2, THEN conjunct2, THEN conjunct1] first
  have 5: "localStorage (snd (auth_login demo_env (browser late_visitor) ?bad)) =
     (localStorage (browser late_visitor))(''access_token'' \<mapsto>
        js_string (access (data \<lparr>status = 200, data = no_body\<lparr>access := Some ''fresh''\<rparr>\<rparr>)))"
    by blast
  from 5 have 6: "localStorage (snd (auth_login demo_env (browser late_visitor) ?bad)) =
     (localStorage (browser late_visitor))(''access_token'' \<mapsto> ''fresh'')"
    by (simp add: js_string_def)
  from 1 4 6 show ?thesis
    by (intro conjI)
qed

subsection \<open>Interleaved runs of the handler\<close>

lemma run_Nil: "run e t [] = t"
  by (simp add: run_def)

lemma run_Cons: "run e t (ev # evs) = run e (occurs e t ev) evs"
  by (simp add: run_def)

lemma run_append: "run e t (evs @ evs') = run e (run e t evs) evs'"
  by (simp add: run_def)

text \<open>
  A run of the handler with nothing else in between, the network answering as the server
  does, leaves the world that \<open>response_rejected\<close> leaves (with the reissued request
  sent, when there is one).
\<close>

lemma run_alone_finished:
  assumes "response_rejected_begin e (window t) err = Finished out"
  shows "window (run e t [Fails err]) = window t \<and>
         response_rejected e (window t) err = (Settled out, window t)"
  using assms by (simp add: run_def response_rejected_def)

lemma run_alone_awaiting:
  assumes "response_rejected_begin e (window t) err = Awaiting orig rq"
  shows "window (run e t [Fails err, Answers (length (handlers t)) (server e (sent (window t)) rq)]) =
         (case response_rejected e (window t) err of
            (Settled out, w1) \<Rightarrow> w1
          | (Reissue cfg, w1) \<Rightarrow> send w1 (request_fulfilled (localStorage w1) cfg))"
  using assms
  by (simp add: run_def response_rejected_def dispatch_def send_def nth_append
        split: prod.splits step.splits)

lemma fails_starts_exchange:
  assumes "unauthorized err" and "truthy (getItem (localStorage (window t)) ''refresh_token'')"
  shows "\<exists>orig. occurs e t (Fails err) =
     t\<lparr>window := send (window t)
          (refresh_request e (js_string (getItem (localStorage (window t)) ''refresh_token''))),
       handlers := handlers t @
          [Waiting orig (refresh_request e (js_string (getItem (localStorage (window t)) ''refresh_token'')))]\<rparr>"
  using assms
  by (cases err) (auto simp: unauthorized_def response_rejected_begin_def Let_def)

lemma fails_all:
  assumes "list_all unauthorized errs"
    and "truthy (getItem (localStorage (window t)) ''refresh_token'')"
    and "rq = refresh_request e (js_string (getItem (localStorage (window t)) ''refresh_token''))"
  shows "\<exists>hs. run e t (map Fails errs) =
           t\<lparr>window := (window t)\<lparr>sent := sent (window t) @ replicate (length errs) rq\<rparr>,
             handlers := handlers t @ hs\<rparr> \<and>
           length hs = length errs \<and> list_all (awaits rq) hs"
  using assms
proof (induction errs arbitrary: t)
  case Nil
  then show ?case by (simp add: run_Nil)
next
  case (Cons err errs)
  from Cons.prems obtain orig where step: "occurs e t (Fails err) =
     t\<lparr>window := send (window t) rq, handlers := handlers t @ [Waiting orig rq]\<rparr>"
    using fails_starts_exchange [of err t e] by auto
  let ?t = "t\<lparr>window := send (window t) rq, handlers := handlers t @ [Waiting orig rq]\<rparr>"
  have "list_all unauthorized errs"
    using Cons.prems by simp
  moreover have "truthy (getItem (localStorage (window ?t)) ''refresh_token'')"
    using Cons.prems by (simp add: send_def)
  moreover have "rq = refresh_request e (js_string (getItem (localStorage (window ?t)) ''refresh_token''))"
    using Cons.prems by (simp add: send_def)
  ultimately obtain hs where hs: "run e ?t (map Fails errs) =
           ?t\<lparr>window := (window ?t)\<lparr>sent := sent (window ?t) @ replicate (length errs) rq\<rparr>,
             handlers := handlers ?t @ hs\<rparr>"
      "length hs = length errs" "list_all (awaits rq) hs"
    using Cons.IH [of ?t] by blast
  have "run e t (map Fails (err # errs)) =
      t\<lparr>window := (window t)\<lparr>sent := sent (window t) @ replicate (length (err # errs)) rq\<rparr>,
        handlers := handlers t @ (Waiting orig rq # hs)\<rparr>"
    using step hs(1) by (simp add: run_Cons send_def replicate_app_Cons_same)
  moreover have "length (Waiting orig rq # hs) = length (err # errs)"
    using hs(2) by simp
  moreover have "list_all (awaits rq) (Waiting orig rq # hs)"
    using hs(3) by simp
  ultimately show ?case by blast
qed

lemma answer_keeps_others:
  "length (handlers (occurs e t (Answers i reply))) = length (handlers t) \<and>
   (k \<noteq> i \<longrightarrow> handlers (occurs e t (Answers i reply)) ! k = handlers t ! k)"
  by (simp split: handler.splits prod.splits step.splits)

lemma answers_keep_others:
  assumes "k \<notin> fst ` set answers"
  shows "length (handlers (run e t (map (\<lambda>(i, reply). Answers i reply) answers))) = length (handlers t) \<and>
         handlers (run e t (map (\<lambda>(i, reply). Answers i reply) answers)) ! k = handlers t ! k"
  using assms
proof (induction answers arbitrary: t)
  case Nil
  then show ?case by (simp add: run_Nil)
next
  case (Cons a answers)
  obtain i reply where a: "a = (i, reply)"
    by (cases a)
  with Cons.prems have "k \<noteq> i" "k \<notin> fst ` set answers"
    by auto
  with Cons.IH [of "occurs e t (Answers i reply)"] answer_keeps_others [of e t i reply k] a
  show ?case by (simp add: run_Cons)
qed

lemma answer_decides:
  assumes "k < length (handlers t)" and "awaits rq (handlers t ! k)"
  shows "case settle rq reply of
           Resolved r2 \<Rightarrow>
             getItem (localStorage (window (occurs e t (Answers k reply)))) ''access_token'' =
               Some (js_string (access (data r2)))
         | Rejected refreshError \<Rightarrow>
             getItem (localStorage (window (occurs e t (Answers k reply)))) ''access_token'' = None \<and>
             getItem (localStorage (window (occurs e t (Answers k reply)))) ''refresh_token'' = None \<and>
             getItem (localStorage (window (occurs e t (Answers k reply)))) ''user'' = None \<and>
             location (window (occurs e t (Answers k reply))) = ''/login''"
proof (cases "handlers t ! k")
  case (Waiting orig rq')
  with assms(2) have "rq' = rq" by simp
  with Waiting assms(1) show ?thesis
    by (cases "settle rq reply")
       (simp_all add: response_rejected_resume_def Let_def send_def getItem_def setItem_def removeItem_def)
next
  case (Ended s)
  with assms(2) show ?thesis by simp
qed


text \<open>
  C9. The claim as stated fails in two ways. Two requests fail with 401 at the same time:
  (1) with no refresh token in the store, neither failure sends a refresh exchange;
  (2) with a refresh token in the store, each failure sends its own exchange, the first
  exchange succeeds and its access token is stored, the second is rejected afterwards (a
  server that accepts a refresh token once does this), and the store ends with no access
  token at all: the token of the only exchange that wrote one is not the one left stored.
\<close>

theorem concurrent_refresh_counterexample:
  "list_all unauthorized two_failures \<and>
   sent (window (run demo_env (busy_tab access_only) (map Fails two_failures))) =
     sent (window (busy_tab access_only)) \<and>
   sent (window (run demo_env (busy_tab stale_session) (map Fails two_failures))) =
     sent (window (busy_tab stale_session)) @
       [refresh_request demo_env ''r1'', refresh_request demo_env ''r1''] \<and>
   getItem (localStorage (window (run demo_env (busy_tab stale_session)
      (map Fails two_failures @ [Answers 0 (issued ''fresh'')])))) ''access_token'' = Some ''fresh'' \<and>
   getItem (localStorage (window (run demo_env (busy_tab stale_session)
      (map Fails two_failures @ [Answers 0 (issued ''fresh''), Answers 1 refused]))))
      ''access_token'' = None"
  by (simp add: tab_defs demo_defs client_defs)

text \<open>
  C9, amended. \<open>N\<close> requests fail with 401 (none of them marked as retried) while a
  non-empty refresh token is stored, and their failures reach the response interceptor
  before any refresh exchange has settled. Then each failure sends its own refresh
  exchange: \<open>N\<close> equal exchanges go out, and \<open>N\<close> runs of the handler wait at the
  same time, with no deduplication and no queue. The exchanges then settle in any order,
  and the one that settles last decides what the store holds: if it succeeded, its access
  token is the one left stored, whatever the others had stored; if it was rejected, the
  three session keys are gone and the location is \<open>/login\<close>.
\<close>

theorem concurrent_refreshes_last_settled_wins:
  assumes "list_all unauthorized errs"
    and "truthy (getItem (localStorage (window t)) ''refresh_token'')"
    and "rq = refresh_request e (js_string (getItem (localStorage (window t)) ''refresh_token''))"
    and "t1 = run e t (map Fails errs)"
    and "length (handlers t) \<le> k" and "k < length (handlers t) + length errs"
    and "k \<notin> fst ` set answers"
    and "t2 = run e t1 (map (\<lambda>(i, reply). Answers i reply) (answers @ [(k, reply)]))"
  shows "sent (window t1) = sent (window t) @ replicate (length errs) rq \<and>
         length (handlers t1) = length (handlers t) + length errs \<and>
         list_all (awaits rq) (drop (length (handlers t)) (handlers t1)) \<and>
         (case settle rq reply of
            Resolved r2 \<Rightarrow>
              getItem (localStorage (window t2)) ''access_token'' = Some (js_string (access (data r2)))
          | Rejected refreshError \<Rightarrow>
              getItem (localStorage (window t2)) ''access_token'' = None \<and>
              getItem (localStorage (window t2)) ''refresh_token'' = None \<and>
              getItem (localStorage (window t2)) ''user'' = None \<and>
              location (window t2) = ''/login'')"
proof -
  from fails_all [OF assms(1,2,3)] assms(4) obtain hs where
    t1: "t1 = t\<lparr>window := (window t)\<lparr>sent := sent (window t) @ replicate (length errs) rq\<rparr>,
                handlers := handlers t @ hs\<rparr>"
    and hs: "length hs = length errs" "list_all (awaits rq) hs"
    by blast
  let ?t = "run e t1 (map (\<lambda>(i, reply). Answers i reply) answers)"
  from t1 hs assms(5,6) have k: "k < length (handlers t1)" "awaits rq (handlers t1 ! k)"
    by (simp_all add: nth_append list_all_length)
  with answers_keep_others [OF assms(7), of e t1]
  have "k < length (handlers ?t)" "awaits rq (handlers ?t ! k)"
    by simp_all
  note last = answer_decides [OF this, where reply = reply and e = e]
  have t2: "t2 = occurs e ?t (Answers k reply)"
    using assms(8) by (simp add: run_append run_Cons run_Nil del: occurs.simps)
  have "case settle rq reply of
            Resolved r2 \<Rightarrow>
              getItem (localStorage (window t2)) ''access_token'' = Some (js_string (access (data r2)))
          | Rejected refreshError \<Rightarrow>
              getItem (localStorage (window t2)) ''access_token'' = None \<and>
              getItem (localStorage (window t2)) ''refresh_token'' = None \<and>
              getItem (localStorage (window t2)) ''user'' = None \<and>
              location (window t2) = ''/login''"
    unfolding t2 by (rule last)
  with t1 hs show ?thesis by simp
qed

theorem concurrent_refreshes_last_settled_wins_witness:
  "sent (window (run demo_env (busy_tab stale_session) (map Fails two_failures))) =
     sent (window (busy_tab stale_session)) @
       [refresh_request demo_env ''r1'', refresh_request demo_env ''r1''] \<and>
   getItem (localStorage (window (run demo_env (busy_tab stale_session)
      (map Fails two_failures @ [Answers 0 (issued ''first''), Answers 1 (issued ''second'')]))))
      ''access_token'' = Some ''second'' \<and>
   getItem (localStorage (window (run demo_env (busy_tab stale_session)
      (map Fails two_failures @ [Answers 1 (issued ''second''), Answers 0 (issued ''first'')]))))
      ''access_token'' = Some ''first''"
proof -
  let ?t = "busy_tab stale_session"
  let ?rq = "refresh_request demo_env ''r1''"
  have 1: "list_all unauthorized two_failures"
    by (simp add: tab_defs demo_defs client_defs)
  have 2: "truthy (getItem (localStorage (window ?t)) ''refresh_token'')"
    by (simp add: tab_defs demo_defs client_defs)
  have 3: "?rq = refresh_request demo_env (js_string (getItem (localStorage (window ?t)) ''refresh_token''))"
    by (simp add: tab_defs demo_defs client_defs)
  have a: "length (handlers ?t) \<le> 1" "1 < length (handlers ?t) + length two_failures"
    "1 \<notin> fst ` set [(0::nat, issued ''first'')]"
    by (simp_all add: tab_defs)
  have b: "length (handlers ?t) \<le> 0" "0 < length (handlers ?t) + length two_failures"
    "0 \<notin> fst ` set [(1::nat, issued ''second'')]"
    by (simp_all add: tab_defs)
  have s: "settle ?rq (issued ''first'') =
             Resolved \<lparr>status = 200, data = no_body\<lparr>access := Some ''first''\<rparr>\<rparr>"
    "settle ?rq (issued ''second'') =
             Resolved \<lparr>status = 200, data = no_body\<lparr>access := Some ''second''\<rparr>\<rparr>"
    "length two_failures = 2"
    by (simp_all add: tab_defs client_defs)
  from concurrent_refreshes_last_settled_wins [OF 1 2 3 refl a refl, where reply = "issued ''second''"]
    concurrent_refreshes_last_settled_wins [OF 1 2 3 refl b refl, where reply = "issued ''first''"] s
  show ?thesis
    by (simp add: run_append js_string_def numeral_2_eq_2)
qed

end
